theory Spec2Isabelle
  imports Main "HOL-Library.Sublist" "HOL-Library.Word"
begin

section \<open>Python values used by the research assistant\<close>

text \<open>
  A Python \<open>str\<close> is a sequence of Unicode code points: slicing and \<open>len\<close> count code
  points, not bytes.  It is modelled as a list of code points, and the literal text of
  the source is embedded with \<open>ascii\<close>.
\<close>

type_synonym pystr = "nat list"

definition ascii :: "string \<Rightarrow> pystr" where
  "ascii s = map of_char s"

text \<open>\<open>sep.join(xs)\<close> on a list of strings.\<close>

fun join :: "pystr \<Rightarrow> pystr list \<Rightarrow> pystr" where
  "join sep [] = []"
| "join sep [x] = x"
| "join sep (x # y # ys) = x @ sep @ join sep (y # ys)"

text \<open>\<open>str(n)\<close> for a Python \<open>int\<close>, as an f-string renders \<open>{max_papers}\<close>.\<close>

fun digits :: "nat \<Rightarrow> pystr" where
  "digits n = (if n < 10 then [48 + n] else digits (n div 10) @ [48 + n mod 10])"

definition str_int :: "int \<Rightarrow> pystr" where
  "str_int i = (if i < 0 then 45 # digits (nat (- i)) else digits (nat i))"

text \<open>
  An exception is a value: its class name and what \<open>str(e)\<close> gives.  Every exception
  of the model is an instance of \<open>Exception\<close>, the class that the handlers of the source
  catch.
\<close>

datatype pyexn = PyExn (exn_class: string) (exn_str: pystr)

section \<open>orchestrator.py: the conversation coordinator\<close>

text \<open>
  The task handed to the team is \<open>TextMessage(content=prompt, source="user")\<close>.
\<close>

datatype text_message = TextMessage (msg_content: pystr) (msg_source: pystr)

text \<open>
  What the stream yields is tested with \<open>hasattr(message, 'content')\<close> only.  An item
  that has the attribute is \<open>WithContent c\<close>, where \<open>c\<close> is \<open>str(message.content)\<close>;
  any other item is \<open>WithoutContent\<close>.  The asynchronous stream yields items until it
  is exhausted or until the model call behind it raises.
\<close>

datatype stream_item = WithContent pystr | WithoutContent

datatype stream = Yield stream_item stream | StopAsyncIteration | Raises pyexn

text \<open>
  The team (\<open>SelectorGroupChat\<close>) is an external collaborator with a state of its own,
  shared by all calls.  \<open>run_stream\<close> takes the state and the task, and gives the
  stream (or raises) and the state afterwards.
\<close>

type_synonym 's team = "'s \<Rightarrow> text_message \<Rightarrow> (pyexn + stream) \<times> 's"

text \<open>
  \<open>_collect_messages\<close>, lines 249 to 255: the loop appends to \<open>messages\<close>, the result is
  \<open>"\n".join(messages)\<close>.
\<close>

fun collect_loop :: "pystr list \<Rightarrow> stream \<Rightarrow> pyexn + pystr list" where
  "collect_loop messages StopAsyncIteration = Inr messages"
| "collect_loop messages (Raises e) = Inl e"
| "collect_loop messages (Yield message rest) =
     collect_loop (case message of
                     WithContent c \<Rightarrow> messages @ [c]
                   | WithoutContent \<Rightarrow> messages) rest"

definition collect_messages :: "stream \<Rightarrow> pyexn + pystr" where
  "collect_messages stream =
     (case collect_loop [] stream of
        Inl e \<Rightarrow> Inl e
      | Inr messages \<Rightarrow> Inr (join (ascii ''\<newline>'') messages))"

text \<open>
  The pair of awaits that every operation of the orchestrator makes: \<open>result = await
  self.team.run_stream(task=TextMessage(content=prompt, source="user"))\<close> followed by
  \<open>await self._collect_messages(result)\<close>.
\<close>

definition coordinator_run :: "'s team \<Rightarrow> 's \<Rightarrow> pystr \<Rightarrow> (pyexn + pystr) \<times> 's" where
  "coordinator_run run_stream s prompt =
     (case run_stream s (TextMessage prompt (ascii ''user'')) of
        (Inl e, s') \<Rightarrow> (Inl e, s')
      | (Inr result, s') \<Rightarrow> (collect_messages result, s'))"

text \<open>
  \<open>run_research_workflow\<close>, lines 139 to 202.  The three prompts are the f-strings of
  lines 154, 166 and 179; code point 34 is the double quote around the topic.  The
  dictionary returned has the keys \<open>topic\<close>, \<open>literature\<close>, \<open>synthesis\<close>, \<open>extensions\<close>
  and \<open>status\<close>: the fields of \<open>workflow_result\<close>.
\<close>

definition lit_prompt :: "pystr \<Rightarrow> int \<Rightarrow> pystr" where
  "lit_prompt topic max_papers =
     ascii ''Search for academic papers on: '' @ [34] @ topic @ [34] @
     ascii ''\<newline>Find up to '' @ str_int max_papers @
     ascii '' relevant papers.\<newline>Return DOI, title, authors, abstract, and link for each.''"

definition syn_prompt :: "pystr \<Rightarrow> pystr" where
  "syn_prompt literature_data =
     ascii ''Analyze and summarize these papers:\<newline>'' @ literature_data @
     ascii ''\<newline>\<newline>Create concise summaries with key findings.''"

definition ext_prompt :: "pystr \<Rightarrow> pystr" where
  "ext_prompt synthesis_data =
     ascii ''Based on these summaries:\<newline>'' @ synthesis_data @
     ascii ''\<newline>\<newline>Propose 5 future research extensions with:\<newline>- Title\<newline>- Description  \<newline>- One-line solution approach\<newline>- Difficulty level''"

record workflow_result =
  wf_topic :: pystr
  wf_literature :: pystr
  wf_synthesis :: pystr
  wf_extensions :: pystr
  wf_status :: pystr

definition run_research_workflow ::
  "'s team \<Rightarrow> 's \<Rightarrow> pystr \<Rightarrow> int \<Rightarrow> (pyexn + workflow_result) \<times> 's" where
  "run_research_workflow run_stream s0 topic max_papers =
     (case coordinator_run run_stream s0 (lit_prompt topic max_papers) of
        (Inl e, s1) \<Rightarrow> (Inl e, s1)
      | (Inr literature_data, s1) \<Rightarrow>
     (case coordinator_run run_stream s1 (syn_prompt literature_data) of
        (Inl e, s2) \<Rightarrow> (Inl e, s2)
      | (Inr synthesis_data, s2) \<Rightarrow>
     (case coordinator_run run_stream s2 (ext_prompt synthesis_data) of
        (Inl e, s3) \<Rightarrow> (Inl e, s3)
      | (Inr extensions_data, s3) \<Rightarrow>
          (Inr \<lparr>wf_topic = topic, wf_literature = literature_data,
                wf_synthesis = synthesis_data, wf_extensions = extensions_data,
                wf_status = ascii ''completed''\<rparr>, s3))))"

text \<open>
  \<open>explain_concept\<close>, lines 204 to 221.  \<open>context\<close> defaults to \<open>None\<close>, and
  \<open>if context:\<close> is Python's truth test: \<open>None\<close> and the empty string are both false.
\<close>

definition explain_prompt :: "pystr \<Rightarrow> pystr option \<Rightarrow> pystr" where
  "explain_prompt concept context =
     (let prompt = ascii ''Explain this concept in simple terms: '' @ concept;
          prompt = (case context of
                      None \<Rightarrow> prompt
                    | Some c \<Rightarrow> if c \<noteq> [] then prompt @ ascii ''\<newline>\<newline>Context: '' @ c
                                else prompt)
      in prompt @ ascii ''\<newline>\<newline>Provide: simple explanation, examples, analogies'')"

definition explain_concept ::
  "'s team \<Rightarrow> 's \<Rightarrow> pystr \<Rightarrow> pystr option \<Rightarrow> (pyexn + pystr) \<times> 's" where
  "explain_concept run_stream s concept context =
     coordinator_run run_stream s (explain_prompt concept context)"

text \<open>
  \<open>check_paper\<close>, lines 223 to 247.  \<open>content[:2000]\<close> is the first 2000 code points
  (the whole string when it is shorter).  The dictionary returned has the one key
  \<open>feedback\<close>; it is modelled as an association list.
\<close>

definition check_prompt :: "pystr \<Rightarrow> pystr \<Rightarrow> pystr" where
  "check_prompt title content =
     ascii ''Check this paper's formatting:\<newline>\<newline>Title: '' @ title @
     ascii ''\<newline>\<newline>Content:\<newline>'' @ take 2000 content @
     ascii ''...\<newline>\<newline>Provide:\<newline>1. Formatting score (0-100)\<newline>2. Missing sections\<newline>3. Recommendations\<newline>4. Overall assessment''"

definition check_paper ::
  "'s team \<Rightarrow> 's \<Rightarrow> pystr \<Rightarrow> pystr \<Rightarrow> (pyexn + (pystr \<times> pystr) list) \<times> 's" where
  "check_paper run_stream s title content =
     (case coordinator_run run_stream s (check_prompt title content) of
        (Inl e, s') \<Rightarrow> (Inl e, s')
      | (Inr feedback, s') \<Rightarrow> (Inr [(ascii ''feedback'', feedback)], s'))"

text \<open>
  A team that also keeps the tasks it is given, in the order of the calls: the stub a
  test puts in place of the coordinator to look at the prompts.
\<close>

definition recording :: "'s team \<Rightarrow> ('s \<times> text_message list) team" where
  "recording run_stream =
     (\<lambda>(s, tasks) task.
        case run_stream s task of (r, s') \<Rightarrow> (r, (s', tasks @ [task])))"

text \<open>
  A team for concrete runs.  Its state counts the calls.  The call numbered \<open>bad\<close>
  raises; the call numbered \<open>n\<close> otherwise answers with three items: a turn with the
  \<open>n\<close>-th capital letter, an item without content, a turn with the \<open>n\<close>-th small letter.
\<close>

definition canned_team :: "nat \<Rightarrow> nat team" where
  "canned_team bad =
     (\<lambda>n task.
        if n = bad then (Inl (PyExn ''RuntimeError'' (ascii ''model call failed'')), Suc n)
        else (Inr (Yield (WithContent [65 + n])
                    (Yield WithoutContent
                      (Yield (WithContent [97 + n]) StopAsyncIteration))), Suc n))"

text \<open>What a stream yields before it ends, and how it ends.\<close>

fun yielded :: "stream \<Rightarrow> stream_item list" where
  "yielded (Yield message rest) = message # yielded rest"
| "yielded StopAsyncIteration = []"
| "yielded (Raises e) = []"

fun failure :: "stream \<Rightarrow> pyexn option" where
  "failure (Yield message rest) = failure rest"
| "failure StopAsyncIteration = None"
| "failure (Raises e) = Some e"

text \<open>
  The coordinator's output as the specification words it: the text of every turn that
  has text, in arrival order, separated by newlines.
\<close>

fun texts :: "stream_item list \<Rightarrow> pystr list" where
  "texts [] = []"
| "texts (WithContent c # turns) = c # texts turns"
| "texts (WithoutContent # turns) = texts turns"

fun newline_separated :: "pystr list \<Rightarrow> pystr" where
  "newline_separated [] = []"
| "newline_separated (t # ts) = t @ concat (map (\<lambda>u. 10 # u) ts)"

section \<open>pubmed\_utils.py: the literature client\<close>

text \<open>
  What \<open>response.json()\<close> returns: \<open>None\<close>, a \<open>bool\<close>, a number, a \<open>str\<close>, a \<open>list\<close>
  or a \<open>dict\<close> with string keys.  A dictionary is an association list; a lookup takes
  the first binding of the key.
\<close>

datatype pyval =
    PNone
  | PBool bool
  | PNum int
  | PStr pystr
  | PList "pyval list"
  | PDict "(pystr \<times> pyval) list"

text \<open>
  The exceptions the interpreter raises in \<open>search_pubmed\<close>.  Their messages are left
  empty: the source only prints them.
\<close>

definition AttributeError :: pyexn where "AttributeError = PyExn ''AttributeError'' []"
definition TypeError :: pyexn where "TypeError = PyExn ''TypeError'' []"
definition KeyError :: pyexn where "KeyError = PyExn ''KeyError'' []"

text \<open>\<open>v.get(key, dflt)\<close> with a default: only a \<open>dict\<close> has the method.\<close>

fun dict_get :: "pyval \<Rightarrow> pystr \<Rightarrow> pyval \<Rightarrow> pyexn + pyval" where
  "dict_get (PDict kv) key dflt =
     Inr (case map_of kv key of Some v \<Rightarrow> v | None \<Rightarrow> dflt)"
| "dict_get v key dflt = Inl AttributeError"

text \<open>\<open>v[key]\<close> with a string key: a \<open>dict\<close> looks it up, every other value raises.\<close>

fun getitem :: "pyval \<Rightarrow> pystr \<Rightarrow> pyexn + pyval" where
  "getitem (PDict kv) key =
     (case map_of kv key of Some v \<Rightarrow> Inr v | None \<Rightarrow> Inl KeyError)"
| "getitem v key = Inl TypeError"

text \<open>The truth value of \<open>v\<close>, as \<open>if not ids\<close> tests it.\<close>

fun truthy :: "pyval \<Rightarrow> bool" where
  "truthy PNone = False"
| "truthy (PBool b) = b"
| "truthy (PNum n) = (n \<noteq> 0)"
| "truthy (PStr s) = (s \<noteq> [])"
| "truthy (PList xs) = (xs \<noteq> [])"
| "truthy (PDict kv) = (kv \<noteq> [])"

text \<open>
  The items of \<open>v\<close> when it is iterated: the elements of a list, the characters of a
  string, the keys of a dictionary.
\<close>

fun iterate :: "pyval \<Rightarrow> pyexn + pyval list" where
  "iterate (PList xs) = Inr xs"
| "iterate (PStr s) = Inr (map (\<lambda>c. PStr [c]) s)"
| "iterate (PDict kv) = Inr (map (\<lambda>(k, v). PStr k) kv)"
| "iterate v = Inl TypeError"

text \<open>
  \<open>",".join(ids)\<close> iterates \<open>ids\<close> and raises \<open>TypeError\<close> at an item that is not a
  \<open>str\<close>.  \<open>str_items\<close> gives the items as strings when the call succeeds; the loop
  \<open>for paper_id in ids\<close>, which runs only after it, visits the same items.
\<close>

fun all_str :: "pyval list \<Rightarrow> pyexn + pystr list" where
  "all_str [] = Inr []"
| "all_str (PStr s # vs) =
     (case all_str vs of Inl e \<Rightarrow> Inl e | Inr ss \<Rightarrow> Inr (s # ss))"
| "all_str (v # vs) = Inl TypeError"

definition str_items :: "pyval \<Rightarrow> pyexn + pystr list" where
  "str_items ids =
     (case iterate ids of Inl e \<Rightarrow> Inl e | Inr items \<Rightarrow> all_str items)"

text \<open>\<open>v[:3]\<close>: a list or a string is sliced, every other value raises.\<close>

fun slice3 :: "pyval \<Rightarrow> pyexn + pyval" where
  "slice3 (PList xs) = Inr (PList (take 3 xs))"
| "slice3 (PStr s) = Inr (PStr (take 3 s))"
| "slice3 v = Inl TypeError"

text \<open>
  \<open>key in v\<close> with a string key: a key of a dictionary, an element of a list, a
  substring of a string; every other value is not iterable.
\<close>

fun contains :: "pyval \<Rightarrow> pystr \<Rightarrow> pyexn + bool" where
  "contains (PDict kv) key = Inr (key \<in> set (map fst kv))"
| "contains (PList xs) key = Inr (PStr key \<in> set xs)"
| "contains (PStr s) key = Inr (sublist key s)"
| "contains v key = Inl TypeError"

text \<open>
  \<open>s.replace(old, new)\<close> for a non-empty \<open>old\<close>: the occurrences of \<open>old\<close> are replaced
  from left to right, without overlap.
\<close>

fun replace :: "pystr \<Rightarrow> pystr \<Rightarrow> pystr \<Rightarrow> pystr" where
  "replace old new [] = []"
| "replace old new (c # cs) =
     (if old \<noteq> [] \<and> prefix old (c # cs)
      then new @ replace old new (drop (length old - 1) cs)
      else c # replace old new cs)"

text \<open>\<open>v.replace("doi: ", "")\<close>: only a \<open>str\<close> has the method.\<close>

fun strip_doi :: "pyval \<Rightarrow> pyexn + pystr" where
  "strip_doi (PStr s) = Inr (replace (ascii ''doi: '') [] s)"
| "strip_doi v = Inl AttributeError"

text \<open>
  \<open>config\<close> comes from a module that is not part of the sources read here; the two
  attributes that \<open>search_pubmed\<close> reads are taken as given.
\<close>

record config =
  PUBMED_BASE_URL :: pystr
  PUBMED_EMAIL :: pystr

text \<open>
  \<open>requests.get(url, params=params)\<close> either raises or gives a response;
  \<open>response.raise_for_status()\<close> raises for an error status, \<open>response.json()\<close> raises
  when the body is not JSON.
\<close>

datatype response = Response (raise_for_status: "pyexn option") (json: "pyexn + pyval")

type_synonym requests = "pystr \<Rightarrow> (pystr \<times> pyval) list \<Rightarrow> pyexn + response"

text \<open>
  One network call as the source writes it twice (lines 31 to 33 and 49 to 51):
  \<open>response = requests.get(url, params=params)\<close>, \<open>response.raise_for_status()\<close>,
  \<open>response.json()\<close>.
\<close>

definition http_json :: "requests \<Rightarrow> pystr \<Rightarrow> (pystr \<times> pyval) list \<Rightarrow> pyexn + pyval" where
  "http_json requests_get url params =
     (case requests_get url params of
        Inl e \<Rightarrow> Inl e
      | Inr response \<Rightarrow>
          (case raise_for_status response of
             Some e \<Rightarrow> Inl e
           | None \<Rightarrow> json response))"

definition search_url :: "config \<Rightarrow> pystr" where
  "search_url cfg = PUBMED_BASE_URL cfg @ ascii ''esearch.fcgi''"

definition search_params :: "config \<Rightarrow> pystr \<Rightarrow> int \<Rightarrow> (pystr \<times> pyval) list" where
  "search_params cfg query max_results =
     [(ascii ''db'', PStr (ascii ''pubmed'')),
      (ascii ''term'', PStr query),
      (ascii ''retmax'', PNum max_results),
      (ascii ''retmode'', PStr (ascii ''json'')),
      (ascii ''email'', PStr (PUBMED_EMAIL cfg))]"

definition fetch_url :: "config \<Rightarrow> pystr" where
  "fetch_url cfg = PUBMED_BASE_URL cfg @ ascii ''esummary.fcgi''"

definition fetch_params :: "config \<Rightarrow> pystr list \<Rightarrow> (pystr \<times> pyval) list" where
  "fetch_params cfg ids =
     [(ascii ''db'', PStr (ascii ''pubmed'')),
      (ascii ''id'', PStr (join (ascii '','') ids)),
      (ascii ''retmode'', PStr (ascii ''json'')),
      (ascii ''email'', PStr (PUBMED_EMAIL cfg))]"

text \<open>
  The id-search phase, lines 21 to 35: the network call, then
  \<open>ids = search_data.get("esearchresult", {}).get("idlist", [])\<close>.
\<close>

definition search_ids :: "config \<Rightarrow> requests \<Rightarrow> pystr \<Rightarrow> int \<Rightarrow> pyexn + pyval" where
  "search_ids cfg requests_get query max_results =
     (case http_json requests_get (search_url cfg) (search_params cfg query max_results) of
        Inl e \<Rightarrow> Inl e
      | Inr search_data \<Rightarrow>
          (case dict_get search_data (ascii ''esearchresult'') (PDict []) of
             Inl e \<Rightarrow> Inl e
           | Inr esearchresult \<Rightarrow> dict_get esearchresult (ascii ''idlist'') (PList [])))"

text \<open>The record built for one paper, lines 64 to 72.\<close>

record paper =
  paper_pmid :: pystr
  paper_title :: pyval
  paper_authors :: "pyval list"
  paper_journal :: pyval
  paper_pubdate :: pyval
  paper_link :: pystr
  paper_doi :: pystr

text \<open>The loop over the first three authors, lines 59 to 62.\<close>

fun authors_loop :: "pyval list \<Rightarrow> pyval list \<Rightarrow> pyexn + pyval list" where
  "authors_loop authors [] = Inr authors"
| "authors_loop authors (author # rest) =
     (case contains author (ascii ''name'') of
        Inl e \<Rightarrow> Inl e
      | Inr True \<Rightarrow>
          (case getitem author (ascii ''name'') of
             Inl e \<Rightarrow> Inl e
           | Inr name \<Rightarrow> authors_loop (authors @ [name]) rest)
      | Inr False \<Rightarrow> authors_loop authors rest)"

text \<open>The body of the inner \<open>try\<close>, lines 56 to 73, for one \<open>paper_id\<close>.\<close>

definition extract_paper :: "pyval \<Rightarrow> pystr \<Rightarrow> pyexn + paper" where
  "extract_paper fetch_data paper_id =
     (case getitem fetch_data (ascii ''result'') of Inl e \<Rightarrow> Inl e | Inr result \<Rightarrow>
     (case getitem result paper_id of Inl e \<Rightarrow> Inl e | Inr paper_data \<Rightarrow>
     (case dict_get paper_data (ascii ''authors'') (PList []) of Inl e \<Rightarrow> Inl e | Inr all_authors \<Rightarrow>
     (case slice3 all_authors of Inl e \<Rightarrow> Inl e | Inr first3 \<Rightarrow>
     (case iterate first3 of Inl e \<Rightarrow> Inl e | Inr first3_items \<Rightarrow>
     (case authors_loop [] first3_items of Inl e \<Rightarrow> Inl e | Inr authors \<Rightarrow>
     (case dict_get paper_data (ascii ''title'') (PStr []) of Inl e \<Rightarrow> Inl e | Inr title \<Rightarrow>
     (case dict_get paper_data (ascii ''fulljournalname'') (PStr []) of Inl e \<Rightarrow> Inl e | Inr journal \<Rightarrow>
     (case dict_get paper_data (ascii ''pubdate'') (PStr []) of Inl e \<Rightarrow> Inl e | Inr pubdate \<Rightarrow>
     (case dict_get paper_data (ascii ''elocationid'') (PStr []) of Inl e \<Rightarrow> Inl e | Inr elocationid \<Rightarrow>
     (case strip_doi elocationid of Inl e \<Rightarrow> Inl e | Inr doi \<Rightarrow>
        Inr \<lparr>paper_pmid = paper_id, paper_title = title, paper_authors = authors,
             paper_journal = journal, paper_pubdate = pubdate,
             paper_link = ascii ''https://pubmed.ncbi.nlm.nih.gov/'' @ paper_id @ ascii ''/'',
             paper_doi = doi\<rparr>)))))))))))"

text \<open>
  The loop over the ids, lines 54 to 76: a paper whose extraction raises is skipped
  (\<open>except Exception ... continue\<close>), the others are appended in order.
\<close>

fun papers_loop :: "pyval \<Rightarrow> paper list \<Rightarrow> pystr list \<Rightarrow> paper list" where
  "papers_loop fetch_data papers [] = papers"
| "papers_loop fetch_data papers (paper_id # rest) =
     (case extract_paper fetch_data paper_id of
        Inl e \<Rightarrow> papers_loop fetch_data papers rest
      | Inr paper \<Rightarrow> papers_loop fetch_data (papers @ [paper]) rest)"

text \<open>The body of the outer \<open>try\<close>, lines 20 to 78.\<close>

definition search_pubmed_try ::
  "config \<Rightarrow> requests \<Rightarrow> pystr \<Rightarrow> int \<Rightarrow> pyexn + paper list" where
  "search_pubmed_try cfg requests_get query max_results =
     (case search_ids cfg requests_get query max_results of
        Inl e \<Rightarrow> Inl e
      | Inr ids \<Rightarrow>
          if \<not> truthy ids then Inr []
          else
            (case str_items ids of
               Inl e \<Rightarrow> Inl e
             | Inr id_strs \<Rightarrow>
                 (case http_json requests_get (fetch_url cfg) (fetch_params cfg id_strs) of
                    Inl e \<Rightarrow> Inl e
                  | Inr fetch_data \<Rightarrow> Inr (papers_loop fetch_data [] id_strs))))"

text \<open>
  \<open>search_pubmed\<close>, lines 9 to 82: the outer handler \<open>except Exception\<close> turns every
  exception of the body into the empty list.  The result is a sum so that "does not
  raise" is a statement about the value and not about the type.
\<close>

definition search_pubmed ::
  "config \<Rightarrow> requests \<Rightarrow> pystr \<Rightarrow> int \<Rightarrow> pyexn + paper list" where
  "search_pubmed cfg requests_get query max_results =
     (case search_pubmed_try cfg requests_get query max_results of
        Inl e \<Rightarrow> Inr []
      | Inr papers \<Rightarrow> Inr papers)"

text \<open>
  The records of the ids whose extraction does not raise, in order: what the
  specification calls skipping a malformed record.
\<close>

fun valid_records :: "pyval \<Rightarrow> pystr list \<Rightarrow> paper list" where
  "valid_records fetch_data [] = []"
| "valid_records fetch_data (paper_id # rest) =
     (case extract_paper fetch_data paper_id of
        Inl e \<Rightarrow> valid_records fetch_data rest
      | Inr paper \<Rightarrow> paper # valid_records fetch_data rest)"

text \<open>
  The names that the author entries carry: for each entry that is a dictionary with the
  key \<open>name\<close>, its value.
\<close>

fun named :: "pyval list \<Rightarrow> pyval list" where
  "named [] = []"
| "named (PDict kv # rest) =
     (case map_of kv (ascii ''name'') of
        Some name \<Rightarrow> name # named rest
      | None \<Rightarrow> named rest)"
| "named (v # rest) = named rest"

text \<open>
  The author list of a paper as the fetched document has it:
  \<open>fetch_data["result"][paper_id]["authors"]\<close> when that is a list.
\<close>

definition upstream_authors :: "pyval \<Rightarrow> pystr \<Rightarrow> pyval list option" where
  "upstream_authors fetch_data paper_id =
     (case getitem fetch_data (ascii ''result'') of
        Inl e \<Rightarrow> None
      | Inr result \<Rightarrow>
          (case getitem result paper_id of
             Inl e \<Rightarrow> None
           | Inr paper_data \<Rightarrow>
               (case dict_get paper_data (ascii ''authors'') (PList []) of
                  Inr (PList as) \<Rightarrow> Some as
                | _ \<Rightarrow> None)))"

fun has_name :: "pyval \<Rightarrow> bool" where
  "has_name (PDict kv) = (map_of kv (ascii ''name'') \<noteq> None)"
| "has_name v = False"

text \<open>
  Stubs of the two network calls for concrete runs: the call to the search URL is
  answered by \<open>search_response\<close>, any other call by \<open>fetch_response\<close>.  The summary
  document has three records: the second author of record 11 has no name, record 22 is
  \<open>null\<close>, record 33 has five named authors.
\<close>

definition test_config :: config where
  "test_config = \<lparr>PUBMED_BASE_URL = ascii ''https://eutils.test/'', PUBMED_EMAIL = ascii ''dev@lab.test''\<rparr>"

definition stub_requests :: "(pyexn + response) \<Rightarrow> (pyexn + response) \<Rightarrow> requests" where
  "stub_requests search_response fetch_response =
     (\<lambda>url params. if url = search_url test_config then search_response else fetch_response)"

definition ok_json :: "pyval \<Rightarrow> pyexn + response" where
  "ok_json v = Inr (Response None (Inr v))"

definition esearch_json :: "pystr list \<Rightarrow> pyval" where
  "esearch_json ids =
     PDict [(ascii ''esearchresult'', PDict [(ascii ''idlist'', PList (map PStr ids))])]"

definition author :: "string \<Rightarrow> pyval" where
  "author name = PDict [(ascii ''name'', PStr (ascii name)), (ascii ''authtype'', PStr (ascii ''Author''))]"

definition esummary_json :: pyval where
  "esummary_json =
     PDict [(ascii ''result'', PDict
       [(ascii ''11'', PDict
          [(ascii ''title'', PStr (ascii ''Base editing'')),
           (ascii ''authors'',
              PList [author ''Liu D'', PDict [(ascii ''authtype'', PStr (ascii ''Author''))],
                     author ''Doudna J'', author ''Zhang F'']),
           (ascii ''fulljournalname'', PStr (ascii ''Nature'')),
           (ascii ''pubdate'', PStr (ascii ''2016 May'')),
           (ascii ''elocationid'', PStr (ascii ''doi: 10.1038/nature17946''))]),
        (ascii ''22'', PNone),
        (ascii ''33'', PDict
          [(ascii ''title'', PStr (ascii ''Prime editing'')),
           (ascii ''authors'',
              PList [author ''Anzalone A'', author ''Randolph P'', author ''Davis J'',
                     author ''Sousa A'', author ''Liu D'']),
           (ascii ''pubdate'', PStr (ascii ''2019 Dec''))])])]"

definition stub_pubmed :: requests where
  "stub_pubmed = stub_requests (ok_json (esearch_json [ascii ''11'', ascii ''22'', ascii ''33'']))
                   (ok_json esummary_json)"

definition paper11 :: paper where
  "paper11 = \<lparr>paper_pmid = ascii ''11'', paper_title = PStr (ascii ''Base editing''),
     paper_authors = [PStr (ascii ''Liu D''), PStr (ascii ''Doudna J'')],
     paper_journal = PStr (ascii ''Nature''), paper_pubdate = PStr (ascii ''2016 May''),
     paper_link = ascii ''https://pubmed.ncbi.nlm.nih.gov/11/'',
     paper_doi = ascii ''10.1038/nature17946''\<rparr>"

definition paper33 :: paper where
  "paper33 = \<lparr>paper_pmid = ascii ''33'', paper_title = PStr (ascii ''Prime editing''),
     paper_authors = [PStr (ascii ''Anzalone A''), PStr (ascii ''Randolph P''),
                      PStr (ascii ''Davis J'')],
     paper_journal = PStr [], paper_pubdate = PStr (ascii ''2019 Dec''),
     paper_link = ascii ''https://pubmed.ncbi.nlm.nih.gov/33/'',
     paper_doi = []\<rparr>"

section \<open>backend.py: the submit-paper endpoint\<close>

text \<open>
  \<open>uuid.uuid4()\<close> is a random 128-bit value; \<open>.hex\<close> is its 32 lower-case hexadecimal
  digits, the most significant first, with leading zeros.
\<close>

definition hex_digit :: "nat \<Rightarrow> nat" where
  "hex_digit d = (if d < 10 then 48 + d else 87 + d)"

definition uuid_hex :: "128 word \<Rightarrow> pystr" where
  "uuid_hex u = map (\<lambda>i. hex_digit (unat u div 16 ^ (31 - i) mod 16)) [0..<32]"

text \<open>
  \<open>s.upper()\<close>, for the characters a hexadecimal string has: a small ASCII letter
  becomes the capital one, a digit stays.
\<close>

definition upper_char :: "nat \<Rightarrow> nat" where
  "upper_char c = (if 97 \<le> c \<and> c \<le> 122 then c - 32 else c)"

definition upper :: "pystr \<Rightarrow> pystr" where
  "upper s = map upper_char s"

text \<open>Line 124: \<open>submission_id = f"SUB-{uuid.uuid4().hex[:8].upper()}"\<close>.\<close>

definition new_submission_id :: "128 word \<Rightarrow> pystr" where
  "new_submission_id uuid4 = ascii ''SUB-'' @ upper (take 8 (uuid_hex uuid4))"

record paper_submit_request =
  req_title :: pystr
  req_authors :: "pystr list"
  req_content :: pystr
  req_professor_email :: pystr

text \<open>The row handed to the store, lines 135 to 143.\<close>

record paper_submission =
  row_submission_id :: pystr
  row_title :: pystr
  row_authors :: pystr
  row_content :: pystr
  row_professor_email :: pystr
  row_status :: pystr
  row_feedback :: pystr

text \<open>The dictionary returned on success, lines 147 to 152.\<close>

record submit_response =
  resp_submission_id :: pystr
  resp_status :: pystr
  resp_message :: pystr
  resp_submitted_at :: pystr

datatype http_exception = HTTPException (status_code: nat) (detail: pystr)

text \<open>
  What the endpoint works with and does not define: the constructor of the orchestrator
  (it may raise), the team's \<open>run_stream\<close>, the write to the store
  (\<open>db = next(get_db())\<close>, \<open>db.add(submission)\<close>, \<open>db.commit()\<close>: the module
  \<open>database\<close> is not part of the sources read here, so the store is a state of any type
  and the write is any function on it that may raise), and Python's \<open>repr\<close> on strings.
\<close>

record ('s, 'db) env =
  new_orchestrator :: "pyexn + 's"
  team_run_stream :: "'s team"
  db_write :: "'db \<Rightarrow> paper_submission \<Rightarrow> (pyexn + unit) \<times> 'db"
  repr :: "pystr \<Rightarrow> pystr"

text \<open>The state of the process: the global \<open>orchestrator\<close> and the store.\<close>

record ('s, 'db) world =
  orchestrator :: "'s option"
  database :: 'db

text \<open>
  \<open>get_orchestrator\<close>, orchestrator.py lines 262 to 267: the instance is built on the
  first call and kept.
\<close>

fun get_orchestrator :: "pyexn + 's \<Rightarrow> 's option \<Rightarrow> (pyexn + 's) \<times> 's option" where
  "get_orchestrator construct (Some orch) = (Inr orch, Some orch)"
| "get_orchestrator construct None =
     (case construct of Inl e \<Rightarrow> (Inl e, None) | Inr orch \<Rightarrow> (Inr orch, Some orch))"

text \<open>\<open>str(d)\<close> for a dictionary of strings.\<close>

definition str_dict :: "(pystr \<Rightarrow> pystr) \<Rightarrow> (pystr \<times> pystr) list \<Rightarrow> pystr" where
  "str_dict rp d =
     ascii ''{'' @ join (ascii '', '') (map (\<lambda>(k, v). rp k @ ascii '': '' @ rp v) d) @ ascii ''}''"

text \<open>
  \<open>submit_paper\<close>, lines 119 to 154.  \<open>uuid4\<close> is the value \<open>uuid.uuid4()\<close> draws and
  \<open>now\<close> is \<open>datetime.now().isoformat()\<close>.  Every exception of the body becomes
  \<open>HTTPException(status_code=500, detail=str(e))\<close>.
\<close>

definition submit_paper ::
  "('s, 'db) env \<Rightarrow> 128 word \<Rightarrow> pystr \<Rightarrow> ('s, 'db) world \<Rightarrow> paper_submit_request \<Rightarrow>
     (http_exception + submit_response) \<times> ('s, 'db) world" where
  "submit_paper env uuid4 now w request =
     (let submission_id = new_submission_id uuid4 in
      case get_orchestrator (new_orchestrator env) (orchestrator w) of
        (Inl e, g) \<Rightarrow> (Inl (HTTPException 500 (exn_str e)), w\<lparr>orchestrator := g\<rparr>)
      | (Inr orch, g) \<Rightarrow>
     (case check_paper (team_run_stream env) orch (req_title request) (req_content request) of
        (Inl e, orch') \<Rightarrow>
          (Inl (HTTPException 500 (exn_str e)), w\<lparr>orchestrator := Some orch'\<rparr>)
      | (Inr feedback, orch') \<Rightarrow>
     (case db_write env (database w)
             \<lparr>row_submission_id = submission_id,
              row_title = req_title request,
              row_authors = join (ascii '', '') (req_authors request),
              row_content = req_content request,
              row_professor_email = req_professor_email request,
              row_status = ascii ''submitted'',
              row_feedback = str_dict (repr env) feedback\<rparr> of
        (Inl e, db') \<Rightarrow>
          (Inl (HTTPException 500 (exn_str e)), \<lparr>orchestrator = Some orch', database = db'\<rparr>)
      | (Inr done, db') \<Rightarrow>
          (Inr \<lparr>resp_submission_id = submission_id,
                resp_status = ascii ''submitted'',
                resp_message = ascii ''Paper submitted to '' @ req_professor_email request,
                resp_submitted_at = now\<rparr>,
           \<lparr>orchestrator = Some orch', database = db'\<rparr>))))"

text \<open>
  An environment for concrete runs: the team is \<open>canned_team bad\<close>, the store is the
  list of its rows and a write appends, \<open>repr\<close> puts a string between single quotes.
\<close>

definition test_env :: "nat \<Rightarrow> (nat, paper_submission list) env" where
  "test_env bad =
     \<lparr>new_orchestrator = Inr 0,
      team_run_stream = canned_team bad,
      db_write = (\<lambda>rows row. (Inr (), rows @ [row])),
      repr = (\<lambda>s. [39] @ s @ [39])\<rparr>"

definition test_request :: paper_submit_request where
  "test_request =
     \<lparr>req_title = ascii ''Base editing'', req_authors = [ascii ''Liu D'', ascii ''Doudna J''],
      req_content = ascii ''Abstract. Methods. Results.'',
      req_professor_email = ascii ''prof@lab.test''\<rparr>"

section \<open>Properties of the orchestrator\<close>

lemma join_newline: "join [10] ts = newline_separated ts"
  by (induction "[10::nat]" ts rule: join.induct) simp_all

lemma collect_loop_texts:
  "collect_loop acc s =
     (case failure s of None \<Rightarrow> Inr (acc @ texts (yielded s)) | Some e \<Rightarrow> Inl e)"
proof (induction s arbitrary: acc)
  case (Yield message rest)
  then show ?case by (cases message) (simp_all split: option.split)
qed simp_all


lemma coordinator_run_recording:
  "coordinator_run (recording rs) (s, tasks) p =
     (case coordinator_run rs s p of
        (r, s') \<Rightarrow> (r, (s', tasks @ [TextMessage p (ascii ''user'')])))"
  by (simp add: coordinator_run_def recording_def split: prod.split sum.split)

lemma sublist_syn_prompt: "sublist lit (syn_prompt lit)"
  unfolding syn_prompt_def by (rule sublist_appendI)

lemma sublist_ext_prompt: "sublist syn (ext_prompt syn)"
  unfolding ext_prompt_def by (rule sublist_appendI)

lemma canned_run:
  "coordinator_run (canned_team bad) n p =
     (if n = bad then (Inl (PyExn ''RuntimeError'' (ascii ''model call failed'')), Suc n)
      else (Inr [65 + n, 10, 97 + n], Suc n))"
  by (simp add: coordinator_run_def canned_team_def collect_messages_def ascii_def)

text \<open>
  C1.  Whenever \<open>run_research_workflow\<close> returns a result, the team was given exactly
  three tasks, in this order: the literature prompt for the topic and \<open>max_papers\<close>, the
  synthesis prompt built from the collected literature text, the extensions prompt built
  from the collected synthesis text.  The synthesis prompt contains the literature text
  as a contiguous substring, the extensions prompt contains the synthesis text as a
  contiguous substring, and the result carries the topic, the three texts and the status
  \<open>completed\<close>.
\<close>

theorem run_research_workflow_stages:
  assumes "fst (run_research_workflow (recording rs) (s0, []) topic n) = Inr r"
  shows "\<exists>lit syn ext s1 s2 s3.
     coordinator_run rs s0 (lit_prompt topic n) = (Inr lit, s1) \<and>
     coordinator_run rs s1 (syn_prompt lit) = (Inr syn, s2) \<and>
     coordinator_run rs s2 (ext_prompt syn) = (Inr ext, s3) \<and>
     snd (run_research_workflow (recording rs) (s0, []) topic n) =
       (s3, map (\<lambda>p. TextMessage p (ascii ''user''))
              [lit_prompt topic n, syn_prompt lit, ext_prompt syn]) \<and>
     sublist lit (syn_prompt lit) \<and> sublist syn (ext_prompt syn) \<and>
     r = \<lparr>wf_topic = topic, wf_literature = lit, wf_synthesis = syn,
          wf_extensions = ext, wf_status = ascii ''completed''\<rparr>"
  using assms
  by (auto simp: run_research_workflow_def coordinator_run_recording
        sublist_syn_prompt sublist_ext_prompt
        split: prod.splits sum.splits)

theorem run_research_workflow_stages_witness:
  "fst (run_research_workflow (recording (canned_team 7)) (0, []) (ascii ''CRISPR'') 5) =
     Inr \<lparr>wf_topic = ascii ''CRISPR'', wf_literature = ascii ''A\<newline>a'',
          wf_synthesis = ascii ''B\<newline>b'', wf_extensions = ascii ''C\<newline>c'',
          wf_status = ascii ''completed''\<rparr> \<and>
   snd (run_research_workflow (recording (canned_team 7)) (0, []) (ascii ''CRISPR'') 5) =
     (3, map (\<lambda>p. TextMessage p (ascii ''user''))
           [lit_prompt (ascii ''CRISPR'') 5, syn_prompt (ascii ''A\<newline>a''),
            ext_prompt (ascii ''B\<newline>b'')])"
proof -
  let ?r = "\<lparr>wf_topic = ascii ''CRISPR'', wf_literature = ascii ''A\<newline>a'',
          wf_synthesis = ascii ''B\<newline>b'', wf_extensions = ascii ''C\<newline>c'',
          wf_status = ascii ''completed''\<rparr>"
  have h: "fst (run_research_workflow (recording (canned_team 7)) (0, []) (ascii ''CRISPR'') 5)
      = Inr ?r"
    by (simp add: run_research_workflow_def coordinator_run_recording canned_run ascii_def)
  from run_research_workflow_stages [OF h] h show ?thesis
    by (auto simp: canned_run ascii_def)
qed

text \<open>
  C2.  If the coordinator run of a stage raises (the call of \<open>run_stream\<close> or the
  collection of its stream), the stages before it having returned, then
  \<open>run_research_workflow\<close> raises that same exception and returns no result.
\<close>

theorem run_research_workflow_fails:
  assumes "coordinator_run rs s0 (lit_prompt topic n) = (Inl e, s')
     \<or> (\<exists>lit s1. coordinator_run rs s0 (lit_prompt topic n) = (Inr lit, s1) \<and>
           coordinator_run rs s1 (syn_prompt lit) = (Inl e, s'))
     \<or> (\<exists>lit s1 syn s2. coordinator_run rs s0 (lit_prompt topic n) = (Inr lit, s1) \<and>
           coordinator_run rs s1 (syn_prompt lit) = (Inr syn, s2) \<and>
           coordinator_run rs s2 (ext_prompt syn) = (Inl e, s'))"
  shows "run_research_workflow rs s0 topic n = (Inl e, s')"
  using assms by (auto simp: run_research_workflow_def)

theorem run_research_workflow_fails_witness:
  "run_research_workflow (canned_team 1) 0 (ascii ''CRISPR'') 5 =
     (Inl (PyExn ''RuntimeError'' (ascii ''model call failed'')), 2)"
proof -
  have "\<exists>lit s1. coordinator_run (canned_team 1) 0 (lit_prompt (ascii ''CRISPR'') 5) = (Inr lit, s1) \<and>
           coordinator_run (canned_team 1) s1 (syn_prompt lit) =
             (Inl (PyExn ''RuntimeError'' (ascii ''model call failed'')), 2)"
    by (simp add: canned_run)
  then show ?thesis
    by (intro run_research_workflow_fails) blast
qed

text \<open>
  C6.  \<open>check_paper\<close> gives the same outcome on a content and on its first 2000
  characters; the one task the team is given is the prompt built from the title and
  \<open>content[:2000]\<close>; and the text the coordinator returns comes back as the only entry
  of the result, under the key \<open>feedback\<close>.  That text is read off the stream the team
  answers with: the contents of its turns, in order, separated by newlines; when
  \<open>run_stream\<close> or the stream raises, \<open>check_paper\<close> raises the same exception.
\<close>

theorem check_paper_truncates:
  "check_paper rs s title content = check_paper rs s title (take 2000 content) \<and>
   snd (snd (check_paper (recording rs) (s, []) title content)) =
     [TextMessage
        (ascii ''Check this paper's formatting:\<newline>\<newline>Title: '' @ title @
         ascii ''\<newline>\<newline>Content:\<newline>'' @ take 2000 content @
         ascii ''...\<newline>\<newline>Provide:\<newline>1. Formatting score (0-100)\<newline>2. Missing sections\<newline>3. Recommendations\<newline>4. Overall assessment'')
        (ascii ''user'')] \<and>
   check_paper rs s title content =
     (case coordinator_run rs s (check_prompt title content) of
        (Inl e, s') \<Rightarrow> (Inl e, s')
      | (Inr feedback, s') \<Rightarrow> (Inr [(ascii ''feedback'', feedback)], s')) \<and>
   check_paper rs s title content =
     (case rs s (TextMessage (check_prompt title content) (ascii ''user'')) of
        (Inl e, s') \<Rightarrow> (Inl e, s')
      | (Inr result, s') \<Rightarrow>
          (case failure result of
             Some e \<Rightarrow> (Inl e, s')
           | None \<Rightarrow>
               (Inr [(ascii ''feedback'', newline_separated (texts (yielded result)))], s')))"
proof (intro conjI)
  show "check_paper rs s title content = check_paper rs s title (take 2000 content)"
    by (simp add: check_paper_def check_prompt_def)
  show "snd (snd (check_paper (recording rs) (s, []) title content)) =
     [TextMessage
        (ascii ''Check this paper's formatting:\<newline>\<newline>Title: '' @ title @
         ascii ''\<newline>\<newline>Content:\<newline>'' @ take 2000 content @
         ascii ''...\<newline>\<newline>Provide:\<newline>1. Formatting score (0-100)\<newline>2. Missing sections\<newline>3. Recommendations\<newline>4. Overall assessment'')
        (ascii ''user'')]"
    by (simp add: check_paper_def check_prompt_def coordinator_run_recording
          split: prod.split sum.split)
  show "check_paper rs s title content =
     (case coordinator_run rs s (check_prompt title content) of
        (Inl e, s') \<Rightarrow> (Inl e, s')
      | (Inr feedback, s') \<Rightarrow> (Inr [(ascii ''feedback'', feedback)], s'))"
    by (simp add: check_paper_def)
  show "check_paper rs s title content =
     (case rs s (TextMessage (check_prompt title content) (ascii ''user'')) of
        (Inl e, s') \<Rightarrow> (Inl e, s')
      | (Inr result, s') \<Rightarrow>
          (case failure result of
             Some e \<Rightarrow> (Inl e, s')
           | None \<Rightarrow>
               (Inr [(ascii ''feedback'', newline_separated (texts (yielded result)))], s')))"
  proof -
    have nl: "ascii ''\<newline>'' = [10]"
      by (simp add: ascii_def)
    show ?thesis
      by (simp add: check_paper_def coordinator_run_def collect_messages_def
            collect_loop_texts nl join_newline
            split: prod.split sum.split option.split)
  qed
qed

text \<open>
  A run on a content of 2016 characters: the feedback is the text of the two turns of
  the team's stream that have a content, the outcome is that of the first 2000
  characters alone, and the prompt the team is given ends the content there.
\<close>

theorem check_paper_truncates_witness:
  "check_paper (canned_team 7) 0 (ascii ''Base editing'')
      (replicate 2000 120 @ ascii ''beyond the limit'') =
     (Inr [(ascii ''feedback'', ascii ''A\<newline>a'')], 1) \<and>
   check_paper (canned_team 7) 0 (ascii ''Base editing'')
      (replicate 2000 120 @ ascii ''beyond the limit'') =
     check_paper (canned_team 7) 0 (ascii ''Base editing'') (replicate 2000 120) \<and>
   snd (snd (check_paper (recording (canned_team 7)) (0, []) (ascii ''Base editing'')
      (replicate 2000 120 @ ascii ''beyond the limit''))) =
     [TextMessage (check_prompt (ascii ''Base editing'') (replicate 2000 120)) (ascii ''user'')]"
proof -
  let ?t = "ascii ''Base editing''"
  let ?c = "replicate 2000 120 @ ascii ''beyond the limit''"
  have cut: "take 2000 ?c = replicate 2000 120"
    by simp
  note inst = check_paper_truncates [of "canned_team 7" 0 ?t ?c]
  have "check_paper (canned_team 7) 0 ?t ?c =
      (Inr [(ascii ''feedback'', ascii ''A\<newline>a'')], 1)"
    by (subst inst [THEN conjunct2, THEN conjunct2, THEN conjunct2])
       (simp add: canned_team_def ascii_def)
  moreover have "check_paper (canned_team 7) 0 ?t ?c =
      check_paper (canned_team 7) 0 ?t (replicate 2000 120)"
    using inst [THEN conjunct1] by (simp only: cut)
  moreover have "snd (snd (check_paper (recording (canned_team 7)) (0, []) ?t ?c)) =
      [TextMessage (check_prompt ?t (replicate 2000 120)) (ascii ''user'')]"
    using inst [THEN conjunct2, THEN conjunct1] by (simp add: check_prompt_def)
  ultimately show ?thesis by (intro conjI)
qed

lemma sublist_skip_left:
  assumes "x \<notin> set as" "sublist (x # xs) (as @ bs)"
  shows "sublist (x # xs) bs"
  using assms
  by (induction as) (auto simp: sublist_Cons_right prefix_Cons)

lemma sublist_skip_right:
  assumes x: "x \<notin> set rs" and r: "r \<notin> set (x # xs)"
    and sub: "sublist (x # xs) (bs @ r # rs)"
  shows "sublist (x # xs) bs"
proof -
  from sub consider
      (left) "sublist (x # xs) bs"
    | (right) "sublist (x # xs) (r # rs)"
    | (split) p1 p2 where "x # xs = p1 @ p2" "suffix p1 bs" "prefix p2 (r # rs)"
    unfolding sublist_append by blast
  then show ?thesis
  proof cases
    case left
    then show ?thesis .
  next
    case right
    then have "set (x # xs) \<subseteq> set (r # rs)"
      by (rule set_mono_sublist)
    with x r show ?thesis by auto
  next
    case split
    show ?thesis
    proof (cases p2)
      case Nil
      with split show ?thesis by (simp add: suffix_imp_sublist)
    next
      case (Cons y ys)
      with split have "y = r" by simp
      moreover from split Cons have "y \<in> set (x # xs)"
        by (metis in_set_conv_decomp)
      ultimately show ?thesis using r by simp
    qed
  qed
qed

lemma Context_without_block:
  assumes "sublist (ascii ''Context:'')
     (ascii ''Explain this concept in simple terms: '' @ concept @
      ascii ''\<newline>\<newline>Provide: simple explanation, examples, analogies'')"
  shows "sublist (ascii ''Context:'') concept"
proof -
  define base where "base = ascii ''Explain this concept in simple terms: ''"
  define rest where "rest = ascii ''\<newline>Provide: simple explanation, examples, analogies''"
  define tl_pat where "tl_pat = ascii ''ontext:''"
  have pat: "ascii ''Context:'' = 67 # tl_pat"
    by (simp add: ascii_def tl_pat_def)
  have req: "ascii ''\<newline>\<newline>Provide: simple explanation, examples, analogies'' = 10 # rest"
    by (simp add: ascii_def rest_def)
  have base: "67 \<notin> set base"
    by (simp add: ascii_def base_def)
  have rest: "67 \<notin> set rest"
    by (simp add: ascii_def rest_def)
  have nl: "10 \<notin> set (67 # tl_pat)"
    by (simp add: ascii_def tl_pat_def)
  from assms have "sublist (67 # tl_pat) (base @ concept @ 10 # rest)"
    by (simp only: pat req base_def)
  with base have "sublist (67 # tl_pat) (concept @ 10 # rest)"
    by (rule sublist_skip_left)
  with rest nl have "sublist (67 # tl_pat) concept"
    by (rule sublist_skip_right)
  then show ?thesis by (simp only: pat)
qed

text \<open>
  C9, amended.  The prompt of \<open>explain_concept\<close> is the base instruction with the
  concept, then the context block exactly when a context is supplied and is not the
  empty string, then the fixed request.  The prompt contains \<open>Context:\<close> exactly when
  the block is there or the concept itself contains \<open>Context:\<close>.
\<close>

theorem explain_prompt_context_block:
  "explain_prompt concept context =
     ascii ''Explain this concept in simple terms: '' @ concept @
     (case context of
        None \<Rightarrow> []
      | Some c \<Rightarrow> if c = [] then [] else ascii ''\<newline>\<newline>Context: '' @ c) @
     ascii ''\<newline>\<newline>Provide: simple explanation, examples, analogies'' \<and>
   sublist (ascii ''Context:'') (explain_prompt concept context) =
     ((\<exists>c. context = Some c \<and> c \<noteq> []) \<or> sublist (ascii ''Context:'') concept)"
proof (intro conjI)
  show shape: "explain_prompt concept context =
     ascii ''Explain this concept in simple terms: '' @ concept @
     (case context of
        None \<Rightarrow> []
      | Some c \<Rightarrow> if c = [] then [] else ascii ''\<newline>\<newline>Context: '' @ c) @
     ascii ''\<newline>\<newline>Provide: simple explanation, examples, analogies''"
    by (simp add: explain_prompt_def split: option.split)
  have block: "sublist (ascii ''Context:'') (explain_prompt concept (Some c))"
    if "c \<noteq> []" for c
  proof -
    have "explain_prompt concept (Some c) =
        (ascii ''Explain this concept in simple terms: '' @ concept @ [10, 10]) @
        ascii ''Context:'' @
        (32 # c @ ascii ''\<newline>\<newline>Provide: simple explanation, examples, analogies'')"
      using that by (simp add: explain_prompt_def ascii_def)
    then show ?thesis by (simp only: sublist_appendI)
  qed
  show "sublist (ascii ''Context:'') (explain_prompt concept context) =
     ((\<exists>c. context = Some c \<and> c \<noteq> []) \<or> sublist (ascii ''Context:'') concept)"
  proof (cases "\<exists>c. context = Some c \<and> c \<noteq> []")
    case True
    then obtain c where c: "context = Some c" "c \<noteq> []" by blast
    then have "sublist (ascii ''Context:'') (explain_prompt concept context)"
      using block by simp
    with True show ?thesis by simp
  next
    case False
    then have none: "(case context of None \<Rightarrow> []
        | Some c \<Rightarrow> if c = [] then [] else ascii ''\<newline>\<newline>Context: '' @ c) = []"
      by (cases "context") auto
    have "sublist (ascii ''Context:'') (explain_prompt concept context) =
        sublist (ascii ''Context:'') concept"
      unfolding shape none
      using Context_without_block [of concept]
      by (auto intro: sublist_order.order_trans)
    with False show ?thesis by blast
  qed
qed

text \<open>
  The claim as stated fails: a concept that contains \<open>Context:\<close> puts it in the prompt
  although no context is given, and a context that is supplied as the empty string adds
  no block.
\<close>

theorem explain_prompt_counterexample:
  "sublist (ascii ''Context:'') (explain_prompt (ascii ''Context: what is it'') None) \<and>
   explain_prompt (ascii ''overfitting'') (Some []) = explain_prompt (ascii ''overfitting'') None"
proof
  have "explain_prompt (ascii ''Context: what is it'') None =
      ascii ''Explain this concept in simple terms: '' @ ascii ''Context:'' @
      ascii '' what is it\<newline>\<newline>Provide: simple explanation, examples, analogies''"
    by (simp add: explain_prompt_def ascii_def)
  then show "sublist (ascii ''Context:'') (explain_prompt (ascii ''Context: what is it'') None)"
    by (simp only: sublist_appendI)
  show "explain_prompt (ascii ''overfitting'') (Some []) =
      explain_prompt (ascii ''overfitting'') None"
    by (simp add: explain_prompt_def)
qed

section \<open>Properties of the literature client\<close>

lemma papers_loop_valid_records:
  "papers_loop fd acc ids = acc @ valid_records fd ids"
  by (induction ids arbitrary: acc) (auto split: sum.splits)

lemma valid_records_append:
  "valid_records fd (xs @ ys) = valid_records fd xs @ valid_records fd ys"
  by (induction xs) (auto split: sum.splits)

lemma valid_records_all:
  "(\<forall>x \<in> set xs. \<not> isl (extract_paper fd x)) \<Longrightarrow>
     valid_records fd xs = map (\<lambda>x. projr (extract_paper fd x)) xs"
  by (induction xs) (auto split: sum.splits)

lemma all_str_map_PStr: "all_str (map PStr ids) = Inr ids"
  by (induction ids) auto

lemma str_items_strs: "str_items (PList (map PStr ids)) = Inr ids"
  by (simp add: str_items_def all_str_map_PStr)

lemma stub_extract_11: "extract_paper esummary_json (ascii ''11'') = Inr paper11"
  by code_simp

lemma stub_extract_22: "extract_paper esummary_json (ascii ''22'') = Inl AttributeError"
  by code_simp

lemma stub_extract_33: "extract_paper esummary_json (ascii ''33'') = Inr paper33"
  by code_simp

lemma stub_search_ids:
  "search_ids test_config stub_pubmed query n =
     Inr (PList (map PStr [ascii ''11'', ascii ''22'', ascii ''33'']))"
  by (simp add: search_ids_def http_json_def stub_pubmed_def stub_requests_def ok_json_def
        esearch_json_def)

lemma stub_fetch:
  "http_json stub_pubmed (fetch_url test_config) params = Inr esummary_json"
  by (simp add: http_json_def stub_pubmed_def stub_requests_def ok_json_def
        fetch_url_def search_url_def ascii_def)

text \<open>
  C3.  \<open>search_pubmed\<close> always returns a list and never raises.  When the id-search
  phase yields the empty id list the result is the empty list, and when a network call
  fails (the request raises, the status is an error, or the body is not JSON), in the
  search phase or in the fetch phase, the result is the empty list.  The exceptions of
  the model are those that \<open>except Exception\<close> catches.
\<close>

theorem search_pubmed_never_raises:
  "(\<exists>papers. search_pubmed cfg get query n = Inr papers) \<and>
   (search_ids cfg get query n = Inr (PList []) \<longrightarrow>
      search_pubmed cfg get query n = Inr []) \<and>
   (http_json get (search_url cfg) (search_params cfg query n) = Inl e \<longrightarrow>
      search_pubmed cfg get query n = Inr []) \<and>
   (search_ids cfg get query n = Inr ids \<and> str_items ids = Inr id_strs \<and>
    http_json get (fetch_url cfg) (fetch_params cfg id_strs) = Inl e \<longrightarrow>
      search_pubmed cfg get query n = Inr [])"
  by (auto simp: search_pubmed_def search_pubmed_try_def search_ids_def split: sum.split)

theorem search_pubmed_never_raises_witness:
  "search_pubmed test_config (stub_requests (ok_json (esearch_json [])) (ok_json esummary_json))
      (ascii ''CRISPR'') 3 = Inr [] \<and>
   search_pubmed test_config
      (stub_requests (Inl (PyExn ''ConnectionError'' (ascii ''unreachable''))) (ok_json esummary_json))
      (ascii ''CRISPR'') 3 = Inr [] \<and>
   search_pubmed test_config
      (stub_requests (ok_json (esearch_json [ascii ''11'']))
         (Inr (Response (Some (PyExn ''HTTPError'' (ascii ''502 Bad Gateway''))) (Inr PNone))))
      (ascii ''CRISPR'') 3 = Inr []"
proof (intro conjI)
  let ?q = "ascii ''CRISPR''"
  let ?empty = "stub_requests (ok_json (esearch_json [])) (ok_json esummary_json)"
  have "search_ids test_config ?empty ?q 3 = Inr (PList [])"
    by (simp add: search_ids_def http_json_def stub_requests_def ok_json_def esearch_json_def)
  with search_pubmed_never_raises [of test_config ?empty ?q 3]
  show "search_pubmed test_config ?empty ?q 3 = Inr []"
    by blast
next
  let ?q = "ascii ''CRISPR''"
  let ?e = "PyExn ''ConnectionError'' (ascii ''unreachable'')"
  let ?down = "stub_requests (Inl ?e) (ok_json esummary_json)"
  have "http_json ?down (search_url test_config) (search_params test_config ?q 3) = Inl ?e"
    by (simp add: http_json_def stub_requests_def)
  with search_pubmed_never_raises [of test_config ?down ?q 3 ?e]
  show "search_pubmed test_config ?down ?q 3 = Inr []"
    by blast
next
  let ?q = "ascii ''CRISPR''"
  let ?e = "PyExn ''HTTPError'' (ascii ''502 Bad Gateway'')"
  let ?half = "stub_requests (ok_json (esearch_json [ascii ''11'']))
         (Inr (Response (Some ?e) (Inr PNone)))"
  have "search_ids test_config ?half ?q 3 = Inr (PList (map PStr [ascii ''11'']))"
    by (simp add: search_ids_def http_json_def stub_requests_def ok_json_def esearch_json_def)
  moreover have "str_items (PList (map PStr [ascii ''11''])) = Inr [ascii ''11'']"
    by (rule str_items_strs)
  moreover have "http_json ?half (fetch_url test_config)
      (fetch_params test_config [ascii ''11'']) = Inl ?e"
    by (simp add: http_json_def stub_requests_def fetch_url_def search_url_def ascii_def)
  ultimately show "search_pubmed test_config ?half ?q 3 = Inr []"
    using search_pubmed_never_raises
      [of test_config ?half ?q 3 ?e "PList (map PStr [ascii ''11''])" "[ascii ''11'']"]
    by blast
qed

text \<open>
  C4.  When the id-search phase returns the ids \<open>ids\<close>, the fetch succeeds, and the
  extraction fails for the id at exactly one position, \<open>search_pubmed\<close> returns
  \<open>length ids - 1\<close> records: the extracted records of the other ids, in order.
\<close>

theorem search_pubmed_skips_malformed:
  assumes ids: "search_ids cfg get query n = Inr (PList (map PStr ids))"
    and fetch: "http_json get (fetch_url cfg) (fetch_params cfg ids) = Inr fetch_data"
    and i: "i < length ids"
    and bad: "isl (extract_paper fetch_data (ids ! i))"
    and good: "\<forall>j < length ids. j \<noteq> i \<longrightarrow> \<not> isl (extract_paper fetch_data (ids ! j))"
  shows "\<exists>papers. search_pubmed cfg get query n = Inr papers \<and>
           length papers = length ids - 1 \<and>
           papers = map (\<lambda>paper_id. projr (extract_paper fetch_data paper_id))
                      (take i ids @ drop (Suc i) ids)"
proof -
  let ?others = "take i ids @ drop (Suc i) ids"
  from i have ne: "ids \<noteq> []" by auto
  have split: "ids = take i ids @ [ids ! i] @ drop (Suc i) ids"
    using i by (simp add: id_take_nth_drop)
  have "\<forall>x \<in> set ?others. \<not> isl (extract_paper fetch_data x)"
  proof
    fix x assume "x \<in> set ?others"
    then consider (l) "x \<in> set (take i ids)" | (r) "x \<in> set (drop (Suc i) ids)" by auto
    then show "\<not> isl (extract_paper fetch_data x)"
    proof cases
      case l
      then obtain j where "j < i" "x = ids ! j"
        using i by (auto simp: in_set_conv_nth)
      with good i show ?thesis by auto
    next
      case r
      then obtain k where "k < length ids - Suc i" "x = ids ! (Suc i + k)"
        using i by (auto simp: in_set_conv_nth)
      with good i show ?thesis by auto
    qed
  qed
  then have others: "valid_records fetch_data ?others =
      map (\<lambda>x. projr (extract_paper fetch_data x)) ?others"
    by (rule valid_records_all)
  from bad have one: "valid_records fetch_data [ids ! i] = []"
    by (auto split: sum.splits)
  have "valid_records fetch_data ids =
      valid_records fetch_data (take i ids) @ valid_records fetch_data [ids ! i] @
      valid_records fetch_data (drop (Suc i) ids)"
    by (subst split) (simp only: valid_records_append)
  with one have "valid_records fetch_data ids = valid_records fetch_data ?others"
    by (simp add: valid_records_append)
  with others have all: "valid_records fetch_data ids =
      map (\<lambda>x. projr (extract_paper fetch_data x)) ?others"
    by simp
  have "search_pubmed cfg get query n = Inr (valid_records fetch_data ids)"
    using ids fetch ne
    by (simp add: search_pubmed_def search_pubmed_try_def str_items_strs
          papers_loop_valid_records)
  moreover have "length ?others = length ids - 1"
    using i by auto
  ultimately show ?thesis
    using all by simp
qed

theorem search_pubmed_skips_malformed_witness:
  "\<exists>papers. search_pubmed test_config stub_pubmed (ascii ''CRISPR'') 3 = Inr papers \<and>
      length papers = 2 \<and> papers = [paper11, paper33]"
proof -
  let ?ids = "[ascii ''11'', ascii ''22'', ascii ''33'']"
  have ids: "search_ids test_config stub_pubmed (ascii ''CRISPR'') 3 = Inr (PList (map PStr ?ids))"
    by (rule stub_search_ids)
  have fetch: "http_json stub_pubmed (fetch_url test_config) (fetch_params test_config ?ids) =
      Inr esummary_json"
    by (rule stub_fetch)
  have i: "1 < length ?ids" by simp
  have bad: "isl (extract_paper esummary_json (?ids ! 1))"
    by (simp add: stub_extract_22)
  have good: "\<forall>j < length ?ids. j \<noteq> 1 \<longrightarrow> \<not> isl (extract_paper esummary_json (?ids ! j))"
    by (simp add: less_Suc_eq stub_extract_11 stub_extract_33)
  from search_pubmed_skips_malformed [OF ids fetch i bad good]
  show ?thesis
    by (simp add: stub_extract_11 stub_extract_33)
qed

lemma authors_loop_PDict:
  "authors_loop acc (PDict kv # xs) =
     (case map_of kv (ascii ''name'') of
        Some name \<Rightarrow> authors_loop (acc @ [name]) xs
      | None \<Rightarrow> authors_loop acc xs)"
proof (cases "map_of kv (ascii ''name'')")
  case None
  then have "ascii ''name'' \<notin> fst ` set kv"
    by (simp add: map_of_eq_None_iff)
  with None show ?thesis by simp
next
  case (Some name)
  then have "ascii ''name'' \<in> fst ` set kv"
    by (metis map_of_eq_None_iff option.distinct(1))
  with Some show ?thesis by simp
qed

lemma authors_loop_named:
  "authors_loop acc xs = Inr r \<Longrightarrow> r = acc @ named xs"
proof (induction xs arbitrary: acc)
  case Nil
  then show ?case by simp
next
  case (Cons a xs)
  show ?case
  proof (cases a)
    case (PDict kv)
    show ?thesis
    proof (cases "map_of kv (ascii ''name'')")
      case None
      with Cons PDict show ?thesis
        by (simp add: authors_loop_PDict del: authors_loop.simps)
    next
      case (Some name)
      with Cons.prems PDict have "authors_loop (acc @ [name]) xs = Inr r"
        by (simp add: authors_loop_PDict del: authors_loop.simps)
      then have "r = (acc @ [name]) @ named xs"
        by (rule Cons.IH)
      with Some PDict show ?thesis by simp
    qed
  qed (use Cons in \<open>auto split: sum.splits bool.splits if_splits\<close>)
qed

lemma length_named: "length (named xs) \<le> length xs"
  by (induction xs rule: named.induct) (auto split: option.split)

lemma extract_paper_authors:
  assumes "extract_paper fd pid = Inr p" and "upstream_authors fd pid = Some as"
  shows "paper_pmid p = pid \<and> paper_authors p = named (take 3 as)"
  using assms
  by (auto simp: extract_paper_def upstream_authors_def
        split: sum.splits pyval.splits dest: authors_loop_named)

lemma valid_records_extracted:
  "p \<in> set (valid_records fd ids) \<Longrightarrow> \<exists>pid \<in> set ids. extract_paper fd pid = Inr p"
  by (induction ids) (auto split: sum.splits)

lemma named_all:
  "(\<forall>a \<in> set xs. \<exists>kv name. a = PDict kv \<and> map_of kv (ascii ''name'') = Some name) \<Longrightarrow>
     length (named xs) = length xs"
  by (induction xs) auto

lemma extract_paper_pmid: "extract_paper fd pid = Inr p \<Longrightarrow> paper_pmid p = pid"
  by (auto simp: extract_paper_def split: sum.splits)

lemma stub_search_pubmed:
  "search_pubmed test_config stub_pubmed query n = Inr [paper11, paper33]"
  by (simp add: search_pubmed_def search_pubmed_try_def stub_search_ids
        str_items_strs [of "[ascii ''11'', ascii ''22'', ascii ''33'']", simplified]
        stub_fetch stub_extract_11 stub_extract_22 stub_extract_33)

lemma stub_upstream_33:
  "upstream_authors esummary_json (ascii ''33'') =
     Some [author ''Anzalone A'', author ''Randolph P'', author ''Davis J'',
           author ''Sousa A'', author ''Liu D'']"
  by code_simp

lemma stub_upstream_11:
  "upstream_authors esummary_json (ascii ''11'') =
     Some [author ''Liu D'', PDict [(ascii ''authtype'', PStr (ascii ''Author''))],
           author ''Doudna J'', author ''Zhang F'']"
  by code_simp

text \<open>
  C5, amended.  For every record returned by \<open>search_pubmed\<close> whose upstream author
  list has more than 3 entries, the authors field holds the names carried by the first 3
  upstream entries, in order: at most 3 names, and exactly 3 when each of the first 3
  entries has a name.
\<close>

theorem search_pubmed_authors:
  assumes res: "search_pubmed cfg get query n = Inr papers" and p: "p \<in> set papers"
    and ids: "search_ids cfg get query n = Inr ids" "str_items ids = Inr id_strs"
    and fetch: "http_json get (fetch_url cfg) (fetch_params cfg id_strs) = Inr fetch_data"
    and up: "upstream_authors fetch_data (paper_pmid p) = Some as" and long: "3 < length as"
  shows "paper_authors p = named (take 3 as) \<and> length (paper_authors p) \<le> 3 \<and>
         ((\<forall>a \<in> set (take 3 as). has_name a) \<longrightarrow> length (paper_authors p) = 3)"
proof -
  from p have "papers \<noteq> []" by auto
  with res ids fetch have "papers = valid_records fetch_data id_strs"
    by (auto simp: search_pubmed_def search_pubmed_try_def papers_loop_valid_records
          split: if_splits)
  with p obtain pid where "extract_paper fetch_data pid = Inr p"
    using valid_records_extracted by blast
  moreover from this have "paper_pmid p = pid"
    by (rule extract_paper_pmid)
  ultimately have eq: "paper_authors p = named (take 3 as)"
    using up extract_paper_authors by blast
  have le: "length (named (take 3 as)) \<le> 3"
    using length_named [of "take 3 as"] by simp
  have "length (named (take 3 as)) = 3" if "\<forall>a \<in> set (take 3 as). has_name a"
  proof -
    from that have "\<forall>a \<in> set (take 3 as). \<exists>kv name. a = PDict kv \<and>
        map_of kv (ascii ''name'') = Some name"
      by (metis has_name.elims(2) not_None_eq)
    then have "length (named (take 3 as)) = length (take 3 as)"
      by (rule named_all)
    with long show ?thesis by simp
  qed
  with eq le show ?thesis by simp
qed

theorem search_pubmed_authors_witness:
  "paper_authors paper33 =
     named (take 3 [author ''Anzalone A'', author ''Randolph P'', author ''Davis J'',
                    author ''Sousa A'', author ''Liu D'']) \<and>
   length (paper_authors paper33) = 3"
proof -
  let ?as = "[author ''Anzalone A'', author ''Randolph P'', author ''Davis J'',
              author ''Sousa A'', author ''Liu D'']"
  have p: "paper33 \<in> set [paper11, paper33]" by simp
  have ids: "str_items (PList (map PStr [ascii ''11'', ascii ''22'', ascii ''33''])) =
      Inr [ascii ''11'', ascii ''22'', ascii ''33'']"
    by (rule str_items_strs)
  have up: "upstream_authors esummary_json (paper_pmid paper33) = Some ?as"
    by (simp add: paper33_def stub_upstream_33)
  have long: "3 < length ?as" by simp
  have names: "\<forall>a \<in> set (take 3 ?as). has_name a"
    by (simp add: author_def)
  from search_pubmed_authors
    [OF stub_search_pubmed p stub_search_ids ids stub_fetch up long] names
  show ?thesis by blast
qed

text \<open>
  The claim as stated fails: record 11 has four upstream authors, the second of the
  first three has no \<open>name\<close>, and the returned record has two authors.
\<close>

theorem search_pubmed_authors_counterexample:
  "search_pubmed test_config stub_pubmed (ascii ''CRISPR'') 3 = Inr [paper11, paper33] \<and>
   upstream_authors esummary_json (paper_pmid paper11) =
     Some [author ''Liu D'', PDict [(ascii ''authtype'', PStr (ascii ''Author''))],
           author ''Doudna J'', author ''Zhang F''] \<and>
   paper_authors paper11 = [PStr (ascii ''Liu D''), PStr (ascii ''Doudna J'')] \<and>
   length (paper_authors paper11) = 2"
  by (simp add: stub_search_pubmed stub_upstream_11 paper11_def)

section \<open>Properties of the submit-paper endpoint\<close>

lemma hex_upper_char:
  assumes "d < 16"
  shows "upper_char (hex_digit d) \<in> set (ascii ''0123456789ABCDEF'')"
proof -
  from assms have "d = 0 \<or> d = 1 \<or> d = 2 \<or> d = 3 \<or> d = 4 \<or> d = 5 \<or> d = 6 \<or> d = 7 \<or>
      d = 8 \<or> d = 9 \<or> d = 10 \<or> d = 11 \<or> d = 12 \<or> d = 13 \<or> d = 14 \<or> d = 15"
    by arith
  then show ?thesis
    by (elim disjE) (simp_all add: upper_char_def hex_digit_def ascii_def)
qed

lemma new_submission_id_format:
  "\<exists>h. new_submission_id u = ascii ''SUB-'' @ h \<and> length h = 8 \<and>
       set h \<subseteq> set (ascii ''0123456789ABCDEF'')"
proof -
  let ?h = "upper (take 8 (uuid_hex u))"
  have "length ?h = 8"
    by (simp add: upper_def uuid_hex_def)
  moreover have "set ?h \<subseteq> set (ascii ''0123456789ABCDEF'')"
  proof
    fix c assume "c \<in> set ?h"
    then obtain d where "c = upper_char (hex_digit d)" "d < 16"
      by (auto simp: upper_def uuid_hex_def take_map dest!: in_set_takeD)
    then show "c \<in> set (ascii ''0123456789ABCDEF'')"
      using hex_upper_char by simp
  qed
  ultimately show ?thesis
    unfolding new_submission_id_def by blast
qed

lemma test_submission_id:
  "new_submission_id 0x00ab0f9e0123456789abcdef00112233 = ascii ''SUB-00AB0F9E''"
  by (simp add: new_submission_id_def uuid_hex_def upper_def upper_char_def hex_digit_def
        ascii_def upt_rec)


lemma test_env_check_paper:
  "check_paper (team_run_stream (test_env bad)) n title content =
     (if n = bad then (Inl (PyExn ''RuntimeError'' (ascii ''model call failed'')), Suc n)
      else (Inr [(ascii ''feedback'', [65 + n, 10, 97 + n])], Suc n))"
  by (simp add: check_paper_def test_env_def canned_run)

text \<open>
  C7.  Whatever value \<open>uuid.uuid4()\<close> draws, the submission identifier that
  \<open>submit_paper\<close> returns is the one generated on line 124, and it is \<open>SUB-\<close> followed
  by exactly 8 characters, each an upper-case hexadecimal digit.
\<close>

theorem submit_paper_id_format:
  assumes "fst (submit_paper env uuid4 now w request) = Inr resp"
  shows "resp_submission_id resp = new_submission_id uuid4 \<and>
         (\<exists>h. resp_submission_id resp = ascii ''SUB-'' @ h \<and> length h = 8 \<and>
              set h \<subseteq> set (ascii ''0123456789ABCDEF''))"
proof -
  from assms have "resp_submission_id resp = new_submission_id uuid4"
    by (auto simp: submit_paper_def Let_def split: prod.splits sum.splits)
  with new_submission_id_format [of uuid4] show ?thesis by simp
qed

theorem submit_paper_id_format_witness:
  "fst (submit_paper (test_env 7) 0x00ab0f9e0123456789abcdef00112233
          (ascii ''2024-05-01T10:00:00'') \<lparr>orchestrator = None, database = []\<rparr> test_request) =
     Inr \<lparr>resp_submission_id = ascii ''SUB-00AB0F9E'', resp_status = ascii ''submitted'',
          resp_message = ascii ''Paper submitted to prof@lab.test'',
          resp_submitted_at = ascii ''2024-05-01T10:00:00''\<rparr> \<and>
   (\<exists>h. ascii ''SUB-00AB0F9E'' = ascii ''SUB-'' @ h \<and> length h = 8 \<and>
        set h \<subseteq> set (ascii ''0123456789ABCDEF''))"
proof -
  let ?resp = "\<lparr>resp_submission_id = ascii ''SUB-00AB0F9E'', resp_status = ascii ''submitted'',
          resp_message = ascii ''Paper submitted to prof@lab.test'',
          resp_submitted_at = ascii ''2024-05-01T10:00:00''\<rparr>"
  have h: "fst (submit_paper (test_env 7) 0x00ab0f9e0123456789abcdef00112233
          (ascii ''2024-05-01T10:00:00'') \<lparr>orchestrator = None, database = []\<rparr> test_request) =
      Inr ?resp"
    by (simp add: submit_paper_def Let_def test_env_def test_request_def check_paper_def canned_run
          test_submission_id ascii_def)
  from submit_paper_id_format [OF h, THEN conjunct2]
  have "\<exists>h. ascii ''SUB-00AB0F9E'' = ascii ''SUB-'' @ h \<and> length h = 8 \<and>
        set h \<subseteq> set (ascii ''0123456789ABCDEF'')"
    by (simp only: submit_response.simps)
  with h show ?thesis
    by (intro conjI)
qed

text \<open>
  C10.  If the formatting check raises, \<open>submit_paper\<close> raises the HTTP error built
  from that exception, returns no submission identifier, and leaves the store as it was:
  the write to the store comes after the check and is not reached.
\<close>

theorem submit_paper_check_fails:
  assumes "get_orchestrator (new_orchestrator env) (orchestrator w) = (Inr orch, g)"
    and "check_paper (team_run_stream env) orch (req_title request) (req_content request) =
           (Inl e, orch')"
  shows "fst (submit_paper env uuid4 now w request) = Inl (HTTPException 500 (exn_str e)) \<and>
         database (snd (submit_paper env uuid4 now w request)) = database w"
  using assms by (simp add: submit_paper_def Let_def)

theorem submit_paper_check_fails_witness:
  "fst (submit_paper (test_env 0) 0x00ab0f9e0123456789abcdef00112233
          (ascii ''2024-05-01T10:00:00'') \<lparr>orchestrator = None, database = []\<rparr> test_request) =
     Inl (HTTPException 500 (ascii ''model call failed'')) \<and>
   database (snd (submit_paper (test_env 0) 0x00ab0f9e0123456789abcdef00112233
          (ascii ''2024-05-01T10:00:00'') \<lparr>orchestrator = None, database = []\<rparr> test_request)) = []"
proof -
  let ?w = "\<lparr>orchestrator = None, database = []\<rparr> :: (nat, paper_submission list) world"
  have orch: "get_orchestrator (new_orchestrator (test_env 0)) (orchestrator ?w) = (Inr 0, Some 0)"
    by (simp add: test_env_def)
  have fails: "check_paper (team_run_stream (test_env 0)) 0 (req_title test_request)
      (req_content test_request) =
      (Inl (PyExn ''RuntimeError'' (ascii ''model call failed'')), Suc 0)"
    by (simp add: test_env_check_paper)
  from submit_paper_check_fails [OF orch fails] show ?thesis
    by simp
qed

end
